theory Spec2Isabelle
  imports Main
begin

section \<open>The storybook pipeline of app.py\<close>

text \<open>
  A shallow embedding of \<^verbatim>\<open>src/app.py\<close>: the Flask handler \<^verbatim>\<open>create\<close> and the
  functions it calls. Python strings are modelled as ASCII text (\<^typ>\<open>string\<close>), byte
  strings likewise. Values decoded from JSON are the datatype \<open>json\<close>. Exceptions are
  values of the datatype \<open>exn\<close>, and every function that can raise returns
  \<open>exn + 'a\<close>, with \<open>Inl\<close> the raised exception. Only subclasses of Python's
  \<^verbatim>\<open>Exception\<close> are modelled. Effects (remote calls, files, flashed messages,
  identifiers drawn from \<^verbatim>\<open>uuid4\<close>) are recorded in an explicit \<open>world\<close>.
\<close>

subsection \<open>Values and exceptions\<close>

datatype json =
    JNull
  | JBool bool
  | JInt int
  | JFloat string \<comment> \<open>a float, kept by its decimal text\<close>
  | JStr string
  | JArr "json list"
  | JObj "(string \<times> json) list" \<comment> \<open>the items of a dict; lookup takes the first match\<close>

datatype exn =
    RuntimeError string
  | ValueError
  | TypeError
  | AttributeError
  | KeyError string
  | IndexError
  | OSError
  | RequestException
  | HTTPError nat
  | JSONDecodeError
  | Base64Error
  | RenderError

subsection \<open>Builtins of the language\<close>

text \<open>\<^verbatim>\<open>str(i)\<close> for an integer: its decimal digits, with a minus sign when negative.\<close>

fun dec_digits :: "nat \<Rightarrow> string" where
  "dec_digits n =
     (if n < 10 then [char_of (48 + n)]
      else dec_digits (n div 10) @ [char_of (48 + n mod 10)])"

declare dec_digits.simps [simp del]

definition str_int :: "int \<Rightarrow> string" where
  "str_int i = (if i < 0 then CHR ''-'' # dec_digits (nat (- i)) else dec_digits (nat i))"

text \<open>\<^verbatim>\<open>str.upper\<close> and \<^verbatim>\<open>str.title\<close> on ASCII text.\<close>

definition is_lower :: "char \<Rightarrow> bool" where
  "is_lower c = (97 \<le> (of_char c :: nat) \<and> (of_char c :: nat) \<le> 122)"

definition is_upper :: "char \<Rightarrow> bool" where
  "is_upper c = (65 \<le> (of_char c :: nat) \<and> (of_char c :: nat) \<le> 90)"

definition to_upper :: "char \<Rightarrow> char" where
  "to_upper c = (if is_lower c then char_of ((of_char c :: nat) - 32) else c)"

definition to_lower :: "char \<Rightarrow> char" where
  "to_lower c = (if is_upper c then char_of ((of_char c :: nat) + 32) else c)"

definition upper :: "string \<Rightarrow> string" where
  "upper s = map to_upper s"

text \<open>
  \<^verbatim>\<open>str.title\<close>: a cased character is upper-cased when the character before it is not
  cased, and lower-cased otherwise.
\<close>

fun title_from :: "bool \<Rightarrow> string \<Rightarrow> string" where
  "title_from prev [] = []"
| "title_from prev (c # cs) =
     (if is_lower c \<or> is_upper c
      then (if prev then to_lower c else to_upper c) # title_from True cs
      else c # title_from False cs)"

definition title :: "string \<Rightarrow> string" where
  "title s = title_from False s"

text \<open>
  The parts of \<^verbatim>\<open>int(s)\<close> for an ASCII string: surrounding whitespace is stripped, a
  sign is optional, then come decimal digits, where single underscores may stand between
  two digits. The conversion itself is \<open>int_of_str\<close> below.
\<close>

definition is_space :: "char \<Rightarrow> bool" where
  "is_space c = ((9 \<le> (of_char c :: nat) \<and> (of_char c :: nat) \<le> 13) \<or> (of_char c :: nat) = 32)"

definition is_digit :: "char \<Rightarrow> bool" where
  "is_digit c = (48 \<le> (of_char c :: nat) \<and> (of_char c :: nat) \<le> 57)"

definition is_ascii :: "char \<Rightarrow> bool" where
  "is_ascii c = ((of_char c :: nat) < 128)"

definition digit_val :: "char \<Rightarrow> nat" where
  "digit_val c = (of_char c :: nat) - 48"

definition strip :: "string \<Rightarrow> string" where
  "strip s = rev (dropWhile is_space (rev (dropWhile is_space s)))"

fun after_digit :: "nat \<Rightarrow> string \<Rightarrow> nat option" where
  "after_digit acc [] = Some acc"
| "after_digit acc [c] = (if is_digit c then Some (acc * 10 + digit_val c) else None)"
| "after_digit acc (c # d # cs) =
     (if is_digit c then after_digit (acc * 10 + digit_val c) (d # cs)
      else if c = CHR ''_'' \<and> is_digit d then after_digit (acc * 10 + digit_val d) cs
      else None)"

definition digits :: "string \<Rightarrow> nat option" where
  "digits s =
     (case s of
        [] \<Rightarrow> None
      | c # cs \<Rightarrow> if is_digit c then after_digit (digit_val c) cs else None)"

text \<open>\<^verbatim>\<open>os.path.join\<close> of two components on a POSIX system.\<close>

definition path_join :: "string \<Rightarrow> string \<Rightarrow> string" where
  "path_join a b =
     (if b \<noteq> [] \<and> hd b = CHR ''/'' then b
      else if a = [] \<or> last a = CHR ''/'' then a @ b
      else a @ ''/'' @ b)"

subsection \<open>Reading decoded JSON\<close>

text \<open>\<^verbatim>\<open>d.get(key, default)\<close>: only a dict has the method.\<close>

definition dict_get :: "json \<Rightarrow> string \<Rightarrow> json \<Rightarrow> exn + json" where
  "dict_get d k dflt =
     (case d of
        JObj kvs \<Rightarrow> (case map_of kvs k of None \<Rightarrow> Inr dflt | Some v \<Rightarrow> Inr v)
      | _ \<Rightarrow> Inl AttributeError)"

text \<open>\<^verbatim>\<open>d[key]\<close> with a string key, and \<^verbatim>\<open>d[0]\<close>.\<close>

definition getitem_key :: "json \<Rightarrow> string \<Rightarrow> exn + json" where
  "getitem_key d k =
     (case d of
        JObj kvs \<Rightarrow> (case map_of kvs k of None \<Rightarrow> Inl (KeyError k) | Some v \<Rightarrow> Inr v)
      | _ \<Rightarrow> Inl TypeError)"

definition getitem_first :: "json \<Rightarrow> exn + json" where
  "getitem_first d =
     (case d of
        JArr xs \<Rightarrow> (case xs of [] \<Rightarrow> Inl IndexError | x # _ \<Rightarrow> Inr x)
      | JStr s \<Rightarrow> (case s of [] \<Rightarrow> Inl IndexError | c # _ \<Rightarrow> Inr (JStr [c]))
      | JObj kvs \<Rightarrow> Inl (KeyError ''0'')
      | _ \<Rightarrow> Inl TypeError)"

text \<open>
  What a \<^verbatim>\<open>for\<close> loop iterates over: the elements of a list, the keys of a dict, the
  characters of a string; other values are not iterable.
\<close>

definition iterate :: "json \<Rightarrow> exn + json list" where
  "iterate v =
     (case v of
        JArr xs \<Rightarrow> Inr xs
      | JObj kvs \<Rightarrow> Inr (map (\<lambda>kv. JStr (fst kv)) kvs)
      | JStr s \<Rightarrow> Inr (map (\<lambda>c. JStr [c]) s)
      | _ \<Rightarrow> Inl TypeError)"

subsection \<open>Configuration, collaborators and the world\<close>

record config =
  OPENAI_API_KEY :: string
  STABILITY_API_KEY :: string
  IMAGE_PROVIDER :: string

definition OUTPUT_DIR :: string where
  "OUTPUT_DIR = ''output''"

record request =
  req_url :: string
  req_headers :: "(string \<times> string) list"
  req_json :: json

datatype reply = NoResponse | Response nat string

text \<open>A document as the template receives it: see \<open>story_document\<close> below.\<close>

record document =
  doc_title :: string
  doc_synopsis :: string
  doc_sections :: "(string \<times> string option) list"

text \<open>
  What the program takes from outside, as parameters: the remote services (the reply to
  the \<open>n\<close>-th call), the decoders of the \<^verbatim>\<open>json\<close> and \<^verbatim>\<open>base64\<close> libraries, the
  builtin \<^verbatim>\<open>hash\<close> of the running process on a pair of a string and a hashable value,
  the identifiers \<^verbatim>\<open>uuid4\<close> hands out, which paths can be written, the PDF engine, the
  template's layout, \<^verbatim>\<open>repr\<close> of containers, the message text of library exceptions,
  the interpreter's limit on the digits of an integer string (\<^verbatim>\<open>sys.int_max_str_digits\<close>:
  4300 unless configured, 0 for no limit), and \<^verbatim>\<open>int(s)\<close> on text outside ASCII.
\<close>

record platform =
  remote :: "nat \<Rightarrow> request \<Rightarrow> reply"
  json_loads :: "string \<Rightarrow> json option"
  b64decode :: "string \<Rightarrow> string option"
  builtin_hash :: "string \<times> json \<Rightarrow> int"
  uuid4_hex :: "nat \<Rightarrow> string"
  can_write :: "string \<Rightarrow> bool"
  write_pdf :: "string \<Rightarrow> exn + string"
  layout :: "document \<Rightarrow> string"
  container_repr :: "json \<Rightarrow> string"
  exn_text :: "exn \<Rightarrow> string"
  int_max_str_digits :: nat
  unicode_int :: "string \<Rightarrow> exn + int"

record world =
  calls :: "request list" \<comment> \<open>remote calls made, oldest first\<close>
  drawn :: nat \<comment> \<open>identifiers drawn from uuid4\<close>
  files :: "(string \<times> string) list" \<comment> \<open>files written, oldest first\<close>
  flashes :: "string list" \<comment> \<open>messages flashed to the user\<close>

type_synonym 'a io = "world \<Rightarrow> (exn + 'a) \<times> world"

definition return_io :: "'a \<Rightarrow> 'a io" where
  "return_io x w = (Inr x, w)"

definition raise_io :: "exn \<Rightarrow> 'a io" where
  "raise_io e w = (Inl e, w)"

definition lift_io :: "exn + 'a \<Rightarrow> 'a io" where
  "lift_io r w = (r, w)"

definition bind_io :: "'a io \<Rightarrow> ('a \<Rightarrow> 'b io) \<Rightarrow> 'b io" where
  "bind_io m f w = (case m w of (Inl e, w') \<Rightarrow> (Inl e, w') | (Inr x, w') \<Rightarrow> f x w')"

text \<open>\<^verbatim>\<open>try: m except Exception: handler\<close>.\<close>

definition catch_io :: "'a io \<Rightarrow> (exn \<Rightarrow> 'a io) \<Rightarrow> 'a io" where
  "catch_io m h w = (case m w of (Inl e, w') \<Rightarrow> h e w' | (Inr x, w') \<Rightarrow> (Inr x, w'))"

text \<open>\<^verbatim>\<open>requests.post\<close>, \<^verbatim>\<open>r.raise_for_status()\<close> and \<^verbatim>\<open>r.json()\<close>.\<close>

definition post :: "platform \<Rightarrow> request \<Rightarrow> (nat \<times> string) io" where
  "post pf rq w =
     (let w' = w\<lparr>calls := calls w @ [rq]\<rparr>
      in case remote pf (length (calls w)) rq of
           NoResponse \<Rightarrow> (Inl RequestException, w')
         | Response st body \<Rightarrow> (Inr (st, body), w'))"

definition raise_for_status :: "nat \<Rightarrow> exn + unit" where
  "raise_for_status st = (if 400 \<le> st \<and> st < 600 then Inl (HTTPError st) else Inr ())"

definition response_json :: "platform \<Rightarrow> string \<Rightarrow> exn + json" where
  "response_json pf body =
     (case json_loads pf body of None \<Rightarrow> Inl JSONDecodeError | Some j \<Rightarrow> Inr j)"

definition uuid4 :: "platform \<Rightarrow> string io" where
  "uuid4 pf w = (Inr (uuid4_hex pf (drawn w)), w\<lparr>drawn := Suc (drawn w)\<rparr>)"


definition write_file :: "platform \<Rightarrow> string \<Rightarrow> string \<Rightarrow> unit io" where
  "write_file pf path content w =
     (if CHR 0x00 \<in> set path then (Inl ValueError, w)
      else if can_write pf path then (Inr (), w\<lparr>files := files w @ [(path, content)]\<rparr>)
      else (Inl OSError, w))"

text \<open>
  \<^verbatim>\<open>int(s)\<close> for a string. On ASCII text: the digits are counted first (underscores,
  sign and surrounding whitespace do not count, leading zeros do), and more digits than
  the interpreter's limit raise \<^verbatim>\<open>ValueError\<close>; the limit only applies beyond 640
  digits. Then the numeral is read, and anything that is not one raises
  \<^verbatim>\<open>ValueError\<close>. On text outside ASCII the conversion is the interpreter's.
\<close>

definition over_limit :: "platform \<Rightarrow> nat \<Rightarrow> bool" where
  "over_limit pf n = (0 < int_max_str_digits pf \<and> 640 < n \<and> int_max_str_digits pf < n)"

definition int_of_str :: "platform \<Rightarrow> string \<Rightarrow> exn + int" where
  "int_of_str pf s =
     (if \<not> list_all is_ascii s then unicode_int pf s
      else
        let t = strip s;
            (neg, body) =
              (case t of
                 [] \<Rightarrow> (False, t)
               | c # cs \<Rightarrow>
                   if c = CHR ''-'' then (True, cs)
                   else if c = CHR ''+'' then (False, cs)
                   else (False, t))
        in if over_limit pf (length (filter is_digit body)) then Inl ValueError
           else case digits body of
                  None \<Rightarrow> Inl ValueError
                | Some n \<Rightarrow> Inr (if neg then - int n else int n))"

text \<open>A value formatted inside an f-string.\<close>

definition format_value :: "platform \<Rightarrow> json \<Rightarrow> string" where
  "format_value pf v =
     (case v of
        JStr s \<Rightarrow> s
      | JInt i \<Rightarrow> str_int i
      | JNull \<Rightarrow> ''None''
      | JBool b \<Rightarrow> (if b then ''True'' else ''False'')
      | JFloat r \<Rightarrow> r
      | _ \<Rightarrow> container_repr pf v)"

text \<open>
  \<^verbatim>\<open>hash((child_name, v))\<close>: a list or a dict inside the tuple is unhashable; otherwise
  the value is the process's own.
\<close>

definition hash_pair :: "platform \<Rightarrow> string \<Rightarrow> json \<Rightarrow> exn + int" where
  "hash_pair pf s v =
     (case v of
        JArr _ \<Rightarrow> Inl TypeError
      | JObj _ \<Rightarrow> Inl TypeError
      | _ \<Rightarrow> Inr (builtin_hash pf (s, v)))"

subsection \<open>The text provider: generate_story_with_openai\<close>

text \<open>One page of the offline sample story (the body of the loop over \<^verbatim>\<open>range\<close>).\<close>

definition sample_page :: "string \<Rightarrow> string \<Rightarrow> string \<Rightarrow> int \<Rightarrow> json" where
  "sample_page name age theme i =
     JObj [(''page'', JInt i),
           (''page_text'',
              JStr (''Page '' @ str_int i @ '': '' @ name @ '' does something fun in the ''
                    @ theme @ ''.'')),
           (''image_description'',
              JStr (name @ '' (age '' @ age @ '') in a '' @ theme
                    @ '' scene, playful composition.''))]"

definition sample_story :: "string \<Rightarrow> string \<Rightarrow> string \<Rightarrow> string \<Rightarrow> int \<Rightarrow> json" where
  "sample_story name age theme tone pages =
     JObj [(''title'', JStr (name @ '' and the '' @ title theme @ '' Adventure'')),
           (''synopsis'', JStr (''A short '' @ tone @ '' tale about '' @ name @ ''.'')),
           (''pages'', JArr (map (sample_page name age theme) [1..pages]))]"

definition story_request :: "config \<Rightarrow> string \<Rightarrow> string \<Rightarrow> string \<Rightarrow> string \<Rightarrow> int \<Rightarrow> request" where
  "story_request cfg name age theme tone pages =
     \<lparr>req_url = ''https://api.openai.com/v1/chat/completions'',
      req_headers = [(''Authorization'', ''Bearer '' @ OPENAI_API_KEY cfg),
                     (''Content-Type'', ''application/json'')],
      req_json =
        JObj [(''model'', JStr ''gpt-4o-mini''),
              (''messages'',
                 JArr [JObj [(''role'', JStr ''system''),
                             (''content'',
                                JStr (''You are a children's story writer. Output valid JSON with fields: title, synopsis, pages. ''
                                      @ ''pages should be a list of objects with page (int), page_text (1-2 short sentences), image_description (short).''))],
                       JObj [(''role'', JStr ''user''),
                             (''content'',
                                JStr (''Write a children's story for a '' @ age @ ''-year-old named '' @ name
                                      @ ''. Theme: '' @ theme @ ''. Tone: '' @ tone @ ''. ''
                                      @ ''Make '' @ str_int pages @ '' pages. Return only JSON (no extra text).''))]]),
              (''max_tokens'', JInt 800),
              (''temperature'', JFloat ''0.8'')]\<rparr>"

text \<open>
  \<^verbatim>\<open>json.loads(text)\<close> inside the \<^verbatim>\<open>try\<close>: a value that is not a string raises
  \<^verbatim>\<open>TypeError\<close>, a string that does not parse raises \<^verbatim>\<open>JSONDecodeError\<close>; the handler
  turns either into a \<^verbatim>\<open>RuntimeError\<close> whose message ends with the text.
\<close>

definition unparsable :: "platform \<Rightarrow> json \<Rightarrow> exn" where
  "unparsable pf text =
     RuntimeError (''LLM returned unparsable JSON. Raw text:'' @ [CHR 0x0A] @ format_value pf text)"

definition parse_story :: "platform \<Rightarrow> json \<Rightarrow> exn + json" where
  "parse_story pf text =
     (case text of
        JStr s \<Rightarrow> (case json_loads pf s of Some story_json \<Rightarrow> Inr story_json
                                          | None \<Rightarrow> Inl (unparsable pf text))
      | _ \<Rightarrow> Inl (unparsable pf text))"

text \<open>Lines 61 and 62: \<^verbatim>\<open>r.json()["choices"][0]["message"]["content"]\<close>.\<close>

definition reply_content :: "platform \<Rightarrow> string \<Rightarrow> exn + json" where
  "reply_content pf body =
     (case response_json pf body of
        Inl e \<Rightarrow> Inl e
      | Inr data \<Rightarrow>
          (case getitem_key data ''choices'' of
             Inl e \<Rightarrow> Inl e
           | Inr choices \<Rightarrow>
               (case getitem_first choices of
                  Inl e \<Rightarrow> Inl e
                | Inr choice \<Rightarrow>
                    (case getitem_key choice ''message'' of
                       Inl e \<Rightarrow> Inl e
                     | Inr message \<Rightarrow> getitem_key message ''content''))))"

definition generate_story_with_openai ::
  "config \<Rightarrow> platform \<Rightarrow> string \<Rightarrow> string \<Rightarrow> string \<Rightarrow> string \<Rightarrow> int \<Rightarrow> json io" where
  "generate_story_with_openai cfg pf name age theme tone pages =
     (if OPENAI_API_KEY cfg = [] then return_io (sample_story name age theme tone pages)
      else
        bind_io (post pf (story_request cfg name age theme tone pages)) (\<lambda>(st, body).
        bind_io (lift_io (raise_for_status st)) (\<lambda>_.
        bind_io (lift_io (reply_content pf body)) (\<lambda>text.
        lift_io (parse_story pf text)))))"

subsection \<open>The image providers\<close>

definition with_seed :: "(string \<times> json) list \<Rightarrow> int option \<Rightarrow> json" where
  "with_seed items seed =
     (case seed of None \<Rightarrow> JObj items | Some k \<Rightarrow> JObj (items @ [(''seed'', JInt k)]))"

text \<open>\<^verbatim>\<open>base64.b64decode(b64)\<close> of a value read from the reply.\<close>

definition decode_image :: "platform \<Rightarrow> json \<Rightarrow> exn + string" where
  "decode_image pf b64 =
     (case b64 of
        JStr s \<Rightarrow> (case b64decode pf s of None \<Rightarrow> Inl Base64Error | Some img_bytes \<Rightarrow> Inr img_bytes)
      | _ \<Rightarrow> Inl TypeError)"

definition generate_image_openai ::
  "config \<Rightarrow> platform \<Rightarrow> string \<Rightarrow> string \<Rightarrow> int option \<Rightarrow> string option io" where
  "generate_image_openai cfg pf prompt image_size seed =
     (if OPENAI_API_KEY cfg = [] then return_io None
      else
        bind_io (post pf
                   \<lparr>req_url = ''https://api.openai.com/v1/images/generations'',
                    req_headers = [(''Authorization'', ''Bearer '' @ OPENAI_API_KEY cfg),
                                   (''Content-Type'', ''application/json'')],
                    req_json = with_seed [(''prompt'', JStr prompt), (''n'', JInt 1),
                                          (''size'', JStr image_size)] seed\<rparr>) (\<lambda>(st, body).
        bind_io (lift_io (raise_for_status st)) (\<lambda>_.
        bind_io (lift_io (response_json pf body)) (\<lambda>j.
        bind_io (lift_io (getitem_key j ''data'')) (\<lambda>data.
        bind_io (lift_io (getitem_first data)) (\<lambda>item.
        bind_io (lift_io (getitem_key item ''b64_json'')) (\<lambda>b64.
        bind_io (lift_io (decode_image pf b64)) (\<lambda>img_bytes.
        return_io (Some img_bytes)))))))))"

definition generate_image_stability ::
  "config \<Rightarrow> platform \<Rightarrow> string \<Rightarrow> int \<Rightarrow> int \<Rightarrow> int option \<Rightarrow> string option io" where
  "generate_image_stability cfg pf prompt width height seed =
     (if STABILITY_API_KEY cfg = [] then return_io None
      else
        bind_io (post pf
                   \<lparr>req_url = ''https://api.stability.ai/v1/generation/stable-diffusion-v1-5/text-to-image'',
                    req_headers = [(''Authorization'', ''Bearer '' @ STABILITY_API_KEY cfg)],
                    req_json = with_seed [(''text_prompts'', JArr [JObj [(''text'', JStr prompt)]]),
                                          (''width'', JInt width), (''height'', JInt height),
                                          (''samples'', JInt 1)] seed\<rparr>) (\<lambda>(st, body).
        bind_io (lift_io (raise_for_status st)) (\<lambda>_.
        bind_io (lift_io (response_json pf body)) (\<lambda>j.
        bind_io (lift_io (getitem_key j ''artifacts'')) (\<lambda>artifacts.
        bind_io (lift_io (getitem_first artifacts)) (\<lambda>item.
        bind_io (lift_io (getitem_key item ''base64'')) (\<lambda>b64.
        bind_io (lift_io (decode_image pf b64)) (\<lambda>img_bytes.
        return_io (Some img_bytes)))))))))"

text \<open>
  \<^verbatim>\<open>generate_image\<close>: picks the provider, and stores the bytes under a fresh name when
  there are any. \<^verbatim>\<open>provider_hint or IMAGE_PROVIDER\<close> takes the hint unless it is
  \<^verbatim>\<open>None\<close> or empty; \<^verbatim>\<open>if img_bytes\<close> holds for a non-empty byte string.
\<close>

definition generate_image ::
  "config \<Rightarrow> platform \<Rightarrow> string \<Rightarrow> string option \<Rightarrow> int option \<Rightarrow> string option io" where
  "generate_image cfg pf prompt provider_hint seed =
     (let provider = (case provider_hint of
                        None \<Rightarrow> IMAGE_PROVIDER cfg
                      | Some h \<Rightarrow> if h = [] then IMAGE_PROVIDER cfg else h)
      in bind_io (uuid4 pf) (\<lambda>hex.
         let uid = take 12 hex;
             out_path = path_join OUTPUT_DIR (''img_'' @ uid @ ''.png'')
         in bind_io (if provider = ''openai''
                       then generate_image_openai cfg pf prompt ''1024x1024'' seed
                     else if provider = ''stability''
                       then generate_image_stability cfg pf prompt 1024 1024 seed
                     else return_io None) (\<lambda>img_bytes.
            case img_bytes of
              None \<Rightarrow> return_io None
            | Some b \<Rightarrow>
                if b = [] then return_io None
                else bind_io (write_file pf out_path b) (\<lambda>_. return_io (Some out_path)))))"

subsection \<open>The handler create: reading the form\<close>

record job_input =
  in_name :: string
  in_age :: string
  in_theme :: string
  in_tone :: string
  in_pages :: int

text \<open>\<^verbatim>\<open>data.get(key, default)\<close> on the submitted form, whose values are strings.\<close>

definition form_get :: "(string \<times> string) list \<Rightarrow> string \<Rightarrow> string \<Rightarrow> string" where
  "form_get data k dflt = (case map_of data k of None \<Rightarrow> dflt | Some v \<Rightarrow> v)"

text \<open>\<^verbatim>\<open>int(data.get("pages", 6))\<close>: the default is already the integer 6.\<close>

definition form_pages :: "platform \<Rightarrow> (string \<times> string) list \<Rightarrow> exn + int" where
  "form_pages pf data =
     (case map_of data ''pages'' of None \<Rightarrow> Inr 6 | Some v \<Rightarrow> int_of_str pf v)"

definition read_form :: "platform \<Rightarrow> (string \<times> string) list \<Rightarrow> exn + job_input" where
  "read_form pf data =
     (let child_name = form_get data ''name'' ''Child'';
          age = form_get data ''age'' ''5'';
          theme = form_get data ''theme'' ''jungle'';
          tone = form_get data ''tone'' ''playful''
      in case form_pages pf data of
           Inl e \<Rightarrow> Inl e
         | Inr pages \<Rightarrow>
             Inr \<lparr>in_name = child_name, in_age = age, in_theme = theme, in_tone = tone,
                  in_pages = pages\<rparr>)"

subsection \<open>The handler create: one image per page\<close>

definition char_token :: "string \<Rightarrow> string" where
  "char_token child_name = ''CHAR_'' @ upper child_name @ ''_V1''"

definition child_descriptor :: "string \<Rightarrow> string \<Rightarrow> string" where
  "child_descriptor child_name age =
     child_name @ '', age '' @ age @ '', child character, friendly face, consistent across pages.''"

definition style_suffix :: string where
  "style_suffix =
     ''Cartoon style, kid-friendly, bright colors, soft rounded shapes. Full scene for a children's book. ''
     @ ''High detail for print, 300 DPI.''"

text \<open>The prompt of a page: \<^verbatim>\<open>p.get('image_description','')\<close> inside the f-string.\<close>

definition page_prompt :: "platform \<Rightarrow> string \<Rightarrow> string \<Rightarrow> json \<Rightarrow> exn + string" where
  "page_prompt pf child_name age p =
     (case dict_get p ''image_description'' (JStr []) of
        Inl e \<Rightarrow> Inl e
      | Inr d \<Rightarrow>
          Inr (char_token child_name @ '': '' @ child_descriptor child_name age @ ''. ''
               @ format_value pf d @ ''. '' @ style_suffix))"

text \<open>The seed of a page: \<^verbatim>\<open>hash((child_name, p.get('page', 0))) % (2**32)\<close>.\<close>

definition page_seed :: "platform \<Rightarrow> string \<Rightarrow> json \<Rightarrow> exn + int" where
  "page_seed pf child_name p =
     (case dict_get p ''page'' (JInt 0) of
        Inl e \<Rightarrow> Inl e
      | Inr pg \<Rightarrow>
          (case hash_pair pf child_name pg of
             Inl e \<Rightarrow> Inl e
           | Inr h \<Rightarrow> Inr (h mod 2 ^ 32)))"

text \<open>
  The body of the loop. The prompt is built outside the \<^verbatim>\<open>try\<close>; the seed and the call
  of \<^verbatim>\<open>generate_image\<close> are inside it, and every exception there gives \<^verbatim>\<open>None\<close>.
\<close>

definition illustrate_page ::
  "config \<Rightarrow> platform \<Rightarrow> string \<Rightarrow> string \<Rightarrow> json \<Rightarrow> string option io" where
  "illustrate_page cfg pf child_name age p =
     bind_io (lift_io (page_prompt pf child_name age p)) (\<lambda>image_prompt.
       catch_io
         (bind_io (lift_io (page_seed pf child_name p)) (\<lambda>seed.
            generate_image cfg pf image_prompt None (Some seed)))
         (\<lambda>e. return_io None))"

text \<open>The loop over the pages; the results are collected in the order of the pages.\<close>

fun illustrate_pages ::
  "config \<Rightarrow> platform \<Rightarrow> string \<Rightarrow> string \<Rightarrow> json list \<Rightarrow> string option list io" where
  "illustrate_pages cfg pf child_name age [] w = (Inr [], w)"
| "illustrate_pages cfg pf child_name age (p # ps) w =
     (case illustrate_page cfg pf child_name age p w of
        (Inl e, w') \<Rightarrow> (Inl e, w')
      | (Inr img_path, w') \<Rightarrow>
          (case illustrate_pages cfg pf child_name age ps w' of
             (Inl e, w'') \<Rightarrow> (Inl e, w'')
           | (Inr page_images, w'') \<Rightarrow> (Inr (img_path # page_images), w'')))"

text \<open>Lines 141 to 156: \<^verbatim>\<open>for p in story.get("pages", [])\<close>.\<close>

definition illustrate ::
  "config \<Rightarrow> platform \<Rightarrow> string \<Rightarrow> string \<Rightarrow> json \<Rightarrow> string option list io" where
  "illustrate cfg pf child_name age story =
     bind_io (lift_io (dict_get story ''pages'' (JArr []))) (\<lambda>v.
     bind_io (lift_io (iterate v)) (\<lambda>ps.
       illustrate_pages cfg pf child_name age ps))"

subsection \<open>The handler create: the document\<close>

text \<open>
  Modelled from the spec: the template \<^verbatim>\<open>story.html\<close> is not among the sources. The spec
  has the assembler build "an intermediate structured document (title, synopsis, one
  section per page pairing page.text with the page's image bytes or a placeholder when
  absent)", preserving "page order exactly as received". A section is the text of the
  page and its image, absent when the results hold none at that position.
\<close>

definition field_text :: "platform \<Rightarrow> json \<Rightarrow> string \<Rightarrow> string" where
  "field_text pf d k = (case dict_get d k (JStr []) of Inl e \<Rightarrow> [] | Inr v \<Rightarrow> format_value pf v)"

definition story_pages :: "json \<Rightarrow> json list" where
  "story_pages story =
     (case dict_get story ''pages'' (JArr []) of
        Inl e \<Rightarrow> []
      | Inr v \<Rightarrow> (case iterate v of Inl e \<Rightarrow> [] | Inr ps \<Rightarrow> ps))"

definition image_at :: "string option list \<Rightarrow> nat \<Rightarrow> string option" where
  "image_at images i = (if i < length images then images ! i else None)"

definition story_document :: "platform \<Rightarrow> json \<Rightarrow> string option list \<Rightarrow> document" where
  "story_document pf story images =
     \<lparr>doc_title = field_text pf story ''title'',
      doc_synopsis = field_text pf story ''synopsis'',
      doc_sections =
        map (\<lambda>(i, p). (field_text pf p ''page_text'', image_at images i))
            (enumerate 0 (story_pages story))\<rparr>"

datatype response =
    Redirect string
  | SendFile string string string \<comment> \<open>the bytes, the download name, the MIME type\<close>

text \<open>
  Lines 158 to 173: render, store the HTML, make the PDF, store it, send it. Rendering
  the template is taken to succeed on every document; the PDF engine may raise.
\<close>

definition assemble ::
  "platform \<Rightarrow> json \<Rightarrow> string option list \<Rightarrow> string \<Rightarrow> response io" where
  "assemble pf story page_images child_name =
     (let rendered = layout pf (story_document pf story page_images)
      in bind_io (uuid4 pf) (\<lambda>hex1.
         bind_io (write_file pf (path_join OUTPUT_DIR (''story_'' @ take 8 hex1 @ ''.html'')) rendered) (\<lambda>_.
         bind_io (lift_io (write_pdf pf rendered)) (\<lambda>pdf_bytes.
         bind_io (uuid4 pf) (\<lambda>hex2.
         bind_io (write_file pf (path_join OUTPUT_DIR (child_name @ ''_storybook_'' @ take 8 hex2 @ ''.pdf''))
                    pdf_bytes) (\<lambda>_.
         return_io (SendFile pdf_bytes (child_name @ ''_storybook.pdf'') ''application/pdf'')))))))"

subsection \<open>The handler create\<close>

definition flash :: "string \<Rightarrow> unit io" where
  "flash msg w = (Inr (), w\<lparr>flashes := flashes w @ [msg]\<rparr>)"

text \<open>\<^verbatim>\<open>str(e)\<close>: the message of a \<^verbatim>\<open>RuntimeError\<close> raised with one.\<close>

definition exn_str :: "platform \<Rightarrow> exn \<Rightarrow> string" where
  "exn_str pf e = (case e of RuntimeError msg \<Rightarrow> msg | _ \<Rightarrow> exn_text pf e)"

definition create :: "config \<Rightarrow> platform \<Rightarrow> (string \<times> string) list \<Rightarrow> response io" where
  "create cfg pf data =
     bind_io (lift_io (read_form pf data)) (\<lambda>inp.
     bind_io
       (catch_io
          (bind_io (generate_story_with_openai cfg pf (in_name inp) (in_age inp) (in_theme inp)
                      (in_tone inp) (in_pages inp))
             (\<lambda>story. return_io (Some story)))
          (\<lambda>e. bind_io (flash (''Error generating story: '' @ exn_str pf e)) (\<lambda>_. return_io None)))
       (\<lambda>r. case r of
              None \<Rightarrow> return_io (Redirect ''index'')
            | Some story \<Rightarrow>
                bind_io (illustrate cfg pf (in_name inp) (in_age inp) story) (\<lambda>page_images.
                  assemble pf story page_images (in_name inp))))"

subsection \<open>Example platforms and the initial world\<close>

definition offline :: platform where
  "offline =
     \<lparr>remote = (\<lambda>n rq. NoResponse),
      json_loads = (\<lambda>s. None),
      b64decode = (\<lambda>s. None),
      builtin_hash = (\<lambda>kv. 0),
      uuid4_hex = (\<lambda>n. ''0123456789abcdef0123456789abcde'' @ dec_digits (n mod 10)),
      can_write = (\<lambda>path. True),
      write_pdf = (\<lambda>html. Inr (''%PDF '' @ html)),
      layout = (\<lambda>d. doc_title d @ concat (map fst (doc_sections d))),
      container_repr = (\<lambda>v. ''...''),
      exn_text = (\<lambda>e. ''error''),
      int_max_str_digits = 4300,
      unicode_int = (\<lambda>s. Inl ValueError)\<rparr>"

definition world0 :: world where
  "world0 = \<lparr>calls = [], drawn = 0, files = [], flashes = []\<rparr>"

definition no_keys :: config where
  "no_keys = \<lparr>OPENAI_API_KEY = [], STABILITY_API_KEY = [], IMAGE_PROVIDER = ''openai''\<rparr>"

definition keyed :: config where
  "keyed = \<lparr>OPENAI_API_KEY = ''sk-test'', STABILITY_API_KEY = [], IMAGE_PROVIDER = ''openai''\<rparr>"

text \<open>
  An image service that answers the first call with status 500 and every later call
  with an image.
\<close>

definition flaky :: platform where
  "flaky = offline
     \<lparr>remote := (\<lambda>n rq. if n = 0 then Response 500 [] else Response 200 ''ok''),
      json_loads := (\<lambda>s. if s = ''ok''
                          then Some (JObj [(''data'', JArr [JObj [(''b64_json'', JStr ''aGk='')]])])
                          else None),
      b64decode := (\<lambda>s. if s = ''aGk='' then Some ''hi'' else None)\<rparr>"

text \<open>
  A text service that answers every call with the given body; the decoder knows two chat
  completions and the empty JSON object.
\<close>

definition chat_reply :: "string \<Rightarrow> json" where
  "chat_reply content =
     JObj [(''choices'',
            JArr [JObj [(''message'',
                         JObj [(''role'', JStr ''assistant''), (''content'', JStr content)])]])]"

definition body_object :: string where
  \<open>body_object = ''{"choices": [{"message": {"role": "assistant", "content": "{}"}}]}''\<close>

definition body_prose :: string where
  \<open>body_prose = ''{"choices": [{"message": {"role": "assistant", "content": "Once upon a time"}}]}''\<close>

definition answering :: "string \<Rightarrow> platform" where
  "answering body = offline
     \<lparr>remote := (\<lambda>n rq. Response 200 body),
      json_loads := (\<lambda>s. if s = body_object then Some (chat_reply ''{}'')
                          else if s = body_prose then Some (chat_reply ''Once upon a time'')
                          else if s = ''{}'' then Some (JObj [])
                          else None)\<rparr>"

subsection \<open>The Story schema, in the spec's words\<close>

text \<open>
  The spec expects "a single JSON object textually matching
  \<^verbatim>\<open>{title, synopsis, pages:[{page, page_text, image_description}]}\<close>", with \<^verbatim>\<open>page\<close> an
  integer and the other fields strings. The source has no such check; the predicate is
  only used to say which replies deviate from the schema.
\<close>

definition is_page :: "json \<Rightarrow> bool" where
  "is_page p =
     (case p of
        JObj kvs \<Rightarrow>
          (case (map_of kvs ''page'', map_of kvs ''page_text'', map_of kvs ''image_description'') of
             (Some (JInt _), Some (JStr _), Some (JStr _)) \<Rightarrow> True
           | _ \<Rightarrow> False)
      | _ \<Rightarrow> False)"

definition matches_story_schema :: "json \<Rightarrow> bool" where
  "matches_story_schema v =
     (case v of
        JObj kvs \<Rightarrow>
          (case (map_of kvs ''title'', map_of kvs ''synopsis'', map_of kvs ''pages'') of
             (Some (JStr _), Some (JStr _), Some (JArr ps)) \<Rightarrow> list_all is_page ps
           | _ \<Rightarrow> False)
      | _ \<Rightarrow> False)"

section \<open>Properties\<close>

subsection \<open>Helper facts\<close>

lemma char_of_48: "char_of (48::nat) = CHR ''0''"
  by code_simp

lemma not_zero_char: "c \<noteq> CHR ''0'' \<Longrightarrow> (of_char c :: nat) \<noteq> 48"
proof
  assume a: "c \<noteq> CHR ''0''" and b: "(of_char c :: nat) = 48"
  have "char_of (of_char c :: nat) = c" by simp
  with b have "c = char_of (48::nat)" by simp
  with a show False by (simp add: char_of_48)
qed

lemma after_digit_all_digits:
  "\<forall>c\<in>set cs. is_digit c \<Longrightarrow> \<exists>n. after_digit acc cs = Some n \<and> acc \<le> n"
proof (induction acc cs rule: after_digit.induct)
  case (1 acc)
  then show ?case by simp
next
  case (2 acc c)
  then show ?case by simp
next
  case (3 acc c d cs)
  then have "\<exists>n. after_digit (acc * 10 + digit_val c) (d # cs) = Some n
                 \<and> acc * 10 + digit_val c \<le> n"
    by simp
  with 3 show ?case by auto
qed

lemma digit_not_space: "is_digit c \<Longrightarrow> \<not> is_space c"
  by (auto simp: is_digit_def is_space_def)

lemma strip_digits:
  assumes ne: "s \<noteq> []" and d: "\<forall>c\<in>set s. is_digit c"
  shows "strip s = s"
proof -
  from ne d have h: "\<not> is_space (hd s)" by (simp add: digit_not_space)
  from ne d have l: "\<not> is_space (last s)" by (simp add: digit_not_space)
  from ne h have 1: "dropWhile is_space s = s" by (cases s) auto
  from ne l have 2: "dropWhile is_space (rev s) = rev s"
    by (cases "rev s") (auto simp: last_rev hd_rev)
  show ?thesis by (simp add: strip_def 1 2)
qed

lemma digit_is_ascii: "is_digit c \<Longrightarrow> is_ascii c"
  by (simp add: is_digit_def is_ascii_def)

lemma int_of_str_digits:
  assumes "s \<noteq> []" "\<forall>c\<in>set s. is_digit c"
  shows "int_of_str pf s =
           (if over_limit pf (length s) then Inl ValueError
            else case digits s of None \<Rightarrow> Inl ValueError | Some n \<Rightarrow> Inr (int n))"
proof -
  from assms(1) obtain c cs where s: "s = c # cs" by (cases s) auto
  with assms have dc: "is_digit c" by auto
  then have sign: "c \<noteq> CHR ''-''" "c \<noteq> CHR ''+''" by (auto simp: is_digit_def)
  from assms(2) have ascii: "list_all is_ascii s" by (simp add: list_all_iff digit_is_ascii)
  from assms(2) have count: "filter is_digit s = s" by simp
  have st: "strip s = s" using assms by (simp add: strip_digits)
  have body: "(case s of [] \<Rightarrow> (False, s)
               | c # cs \<Rightarrow> if c = CHR ''-'' then (True, cs)
                           else if c = CHR ''+'' then (False, cs) else (False, s)) = (False, s)"
    using s sign by simp
  show ?thesis
    unfolding int_of_str_def using ascii by (simp add: st body count split: option.splits)
qed

lemma int_of_str_numeral:
  assumes "s \<noteq> []" "\<forall>c\<in>set s. is_digit c" "hd s \<noteq> CHR ''0''" "\<not> over_limit pf (length s)"
  shows "\<exists>n. int_of_str pf s = Inr n \<and> 1 \<le> n"
proof -
  from assms(1) obtain c cs where s: "s = c # cs" by (cases s) auto
  with assms have dc: "is_digit c" and dcs: "\<forall>x\<in>set cs. is_digit x" and nz: "c \<noteq> CHR ''0''"
    by auto
  from dc nz have pos: "1 \<le> digit_val c"
    using not_zero_char [of c] unfolding digit_val_def is_digit_def by linarith
  from after_digit_all_digits [OF dcs, of "digit_val c"]
  obtain n where n: "after_digit (digit_val c) cs = Some n" "digit_val c \<le> n" by blast
  from s dc n have "digits s = Some n" by (simp add: digits_def)
  with assms(4) have "int_of_str pf s = Inr (int n)"
    by (simp add: int_of_str_digits [OF assms(1,2)])
  with pos n show ?thesis by simp
qed

subsection \<open>Image providers without a credential\<close>

text \<open>
  C5. For every prompt and seed, each image provider adapter returns an absent result
  when its credential is not configured: it raises nothing and leaves the world as it
  was, so no remote call is made. With neither credential configured,
  \<^verbatim>\<open>generate_image\<close> returns an absent result as well, having only drawn an identifier.
\<close>

theorem unconfigured_image_provider_absent:
  "(OPENAI_API_KEY cfg = [] \<longrightarrow>
      generate_image_openai cfg pf prompt image_size seed w = (Inr None, w)) \<and>
   (STABILITY_API_KEY cfg = [] \<longrightarrow>
      generate_image_stability cfg pf prompt width height seed w = (Inr None, w)) \<and>
   (OPENAI_API_KEY cfg = [] \<longrightarrow> STABILITY_API_KEY cfg = [] \<longrightarrow>
      generate_image cfg pf prompt hint seed w = (Inr None, w\<lparr>drawn := Suc (drawn w)\<rparr>))"
  by (simp add: generate_image_openai_def generate_image_stability_def generate_image_def
      return_io_def bind_io_def uuid4_def Let_def split: option.splits)

theorem unconfigured_image_provider_absent_witness:
  "OPENAI_API_KEY no_keys = [] \<and> STABILITY_API_KEY no_keys = [] \<and>
   generate_image_openai no_keys offline ''a cat'' ''1024x1024'' (Some 7) world0
     = (Inr None, world0) \<and>
   generate_image_stability no_keys offline ''a cat'' 1024 1024 (Some 7) world0
     = (Inr None, world0) \<and>
   generate_image no_keys offline ''a cat'' None (Some 7) world0
     = (Inr None, world0\<lparr>drawn := Suc (drawn world0)\<rparr>)"
  using unconfigured_image_provider_absent
          [of no_keys offline "''a cat''" "''1024x1024''" "Some 7" world0 1024 1024 None]
  by (simp add: no_keys_def)

subsection \<open>The offline sample story\<close>

text \<open>
  C2. With no text-provider credential, \<^verbatim>\<open>generate_story_with_openai\<close> does not fail
  and makes no remote call: for every page count from 1 to 20 it returns a story whose
  pages are exactly that many, numbered 1, 2, ... in order, each with a non-empty page
  text and the generic image description.
\<close>

theorem offline_story_has_page_count_pages:
  assumes "OPENAI_API_KEY cfg = []" "1 \<le> n" "n \<le> 20"
  shows "\<exists>ps. generate_story_with_openai cfg pf name age theme tone n w
            = (Inr (JObj [(''title'', JStr (name @ '' and the '' @ title theme @ '' Adventure'')),
                          (''synopsis'', JStr (''A short '' @ tone @ '' tale about '' @ name @ ''.'')),
                          (''pages'', JArr ps)]), w)
          \<and> int (length ps) = n
          \<and> (\<forall>i < length ps.
                getitem_key (ps ! i) ''page'' = Inr (JInt (int i + 1))
              \<and> (\<exists>t. getitem_key (ps ! i) ''page_text'' = Inr (JStr t) \<and> t \<noteq> [])
              \<and> getitem_key (ps ! i) ''image_description''
                  = Inr (JStr (name @ '' (age '' @ age @ '') in a '' @ theme
                               @ '' scene, playful composition.'')))"
proof -
  let ?ps = "map (sample_page name age theme) [1..n]"
  have len: "int (length ?ps) = n" using assms(2) by simp
  have run: "generate_story_with_openai cfg pf name age theme tone n w
            = (Inr (JObj [(''title'', JStr (name @ '' and the '' @ title theme @ '' Adventure'')),
                          (''synopsis'', JStr (''A short '' @ tone @ '' tale about '' @ name @ ''.'')),
                          (''pages'', JArr ?ps)]), w)"
    using assms(1) by (simp add: generate_story_with_openai_def return_io_def sample_story_def)
  have pages: "\<forall>i < length ?ps.
                getitem_key (?ps ! i) ''page'' = Inr (JInt (int i + 1))
              \<and> (\<exists>t. getitem_key (?ps ! i) ''page_text'' = Inr (JStr t) \<and> t \<noteq> [])
              \<and> getitem_key (?ps ! i) ''image_description''
                  = Inr (JStr (name @ '' (age '' @ age @ '') in a '' @ theme
                               @ '' scene, playful composition.''))"
  proof (intro allI impI)
    fix i assume less: "i < length ?ps"
    then have "1 + int i \<le> n" by simp
    then have "[1..n] ! i = 1 + int i" by (rule nth_upto)
    with less have "?ps ! i = sample_page name age theme (1 + int i)" by simp
    then show "getitem_key (?ps ! i) ''page'' = Inr (JInt (int i + 1))
              \<and> (\<exists>t. getitem_key (?ps ! i) ''page_text'' = Inr (JStr t) \<and> t \<noteq> [])
              \<and> getitem_key (?ps ! i) ''image_description''
                  = Inr (JStr (name @ '' (age '' @ age @ '') in a '' @ theme
                               @ '' scene, playful composition.''))"
      by (simp add: sample_page_def getitem_key_def add.commute)
  qed
  from run len pages show ?thesis by blast
qed

theorem offline_story_has_page_count_pages_witness:
  "OPENAI_API_KEY no_keys = [] \<and> (1::int) \<le> 4 \<and> (4::int) \<le> 20 \<and>
   (\<exists>ps. fst (generate_story_with_openai no_keys offline ''Mina'' ''6'' ''ocean'' ''playful'' 4 world0)
          = Inr (JObj [(''title'', JStr ''Mina and the Ocean Adventure''),
                       (''synopsis'', JStr ''A short playful tale about Mina.''),
                       (''pages'', JArr ps)]) \<and> length ps = 4)"
proof -
  have k: "OPENAI_API_KEY no_keys = []" by (simp add: no_keys_def)
  have b: "(1::int) \<le> 4" "(4::int) \<le> 20" by simp_all
  from offline_story_has_page_count_pages
         [OF k b, of offline "''Mina''" "''6''" "''ocean''" "''playful''" world0]
  obtain ps where
    "generate_story_with_openai no_keys offline ''Mina'' ''6'' ''ocean'' ''playful'' 4 world0
       = (Inr (JObj [(''title'', JStr (''Mina'' @ '' and the '' @ title ''ocean'' @ '' Adventure'')),
                     (''synopsis'', JStr (''A short '' @ ''playful'' @ '' tale about '' @ ''Mina'' @ ''.'')),
                     (''pages'', JArr ps)]), world0)"
    "int (length ps) = 4"
    by blast
  moreover have "title ''ocean'' = ''Ocean''" by code_simp
  ultimately show ?thesis using k by auto
qed

subsection \<open>The loop over the pages\<close>

lemma page_prompt_dict:
  "page_prompt pf child_name age (JObj kvs)
     = Inr (char_token child_name @ '': '' @ child_descriptor child_name age @ ''. ''
            @ format_value pf (case map_of kvs ''image_description'' of
                                 None \<Rightarrow> JStr [] | Some d \<Rightarrow> d)
            @ ''. '' @ style_suffix)"
  by (simp add: page_prompt_def dict_get_def split: option.splits)

lemma illustrate_page_returns:
  "\<exists>img w'. illustrate_page cfg pf child_name age (JObj kvs) w = (Inr img, w')"
  by (simp add: illustrate_page_def page_prompt_dict bind_io_def lift_io_def catch_io_def
      return_io_def split: prod.splits sum.splits)

lemma illustrate_page_result:
  assumes "illustrate_page cfg pf child_name age p w = (Inr img, w')"
    and "page_prompt pf child_name age p = Inr prompt"
    and "page_seed pf child_name p = Inr seed"
  shows "(case fst (generate_image cfg pf prompt None (Some seed) w) of
            Inl e \<Rightarrow> img = None | Inr r \<Rightarrow> img = r)"
  using assms
  by (auto simp: illustrate_page_def bind_io_def lift_io_def catch_io_def
      return_io_def split: prod.splits sum.splits)

lemma illustrate_page_unhashable:
  assumes "illustrate_page cfg pf child_name age p w = (Inr img, w')"
    and "page_seed pf child_name p = Inl e"
  shows "img = None \<and> w' = w"
  using assms
  by (auto simp: illustrate_page_def bind_io_def lift_io_def catch_io_def
      return_io_def split: prod.splits sum.splits)

lemma illustrate_pages_trace:
  "\<forall>p\<in>set ps. \<exists>kvs. p = JObj kvs \<Longrightarrow>
   \<exists>imgs ws. illustrate_pages cfg pf child_name age ps w = (Inr imgs, last ws)
     \<and> length imgs = length ps \<and> length ws = Suc (length ps) \<and> ws ! 0 = w
     \<and> (\<forall>i<length ps. illustrate_page cfg pf child_name age (ps ! i) (ws ! i)
                          = (Inr (imgs ! i), ws ! Suc i))"
proof (induction ps arbitrary: w)
  case Nil
  show ?case by (rule exI [of _ "[]"], rule exI [of _ "[w]"]) simp
next
  case (Cons p ps)
  then obtain kvs where p: "p = JObj kvs" by auto
  from illustrate_page_returns [of cfg pf child_name age kvs w] p
  obtain img w1 where step: "illustrate_page cfg pf child_name age p w = (Inr img, w1)" by auto
  from Cons.prems have "\<forall>p\<in>set ps. \<exists>kvs. p = JObj kvs" by simp
  from Cons.IH [OF this, of w1]
  obtain imgs ws where rest: "illustrate_pages cfg pf child_name age ps w1 = (Inr imgs, last ws)"
    and len: "length imgs = length ps" "length ws = Suc (length ps)" and start: "ws ! 0 = w1"
    and each: "\<forall>i<length ps. illustrate_page cfg pf child_name age (ps ! i) (ws ! i)
                          = (Inr (imgs ! i), ws ! Suc i)"
    by blast
  from len have ne: "ws \<noteq> []" by auto
  have run: "illustrate_pages cfg pf child_name age (p # ps) w = (Inr (img # imgs), last (w # ws))"
    using step rest ne by simp
  have all: "\<forall>i<length (p # ps).
               illustrate_page cfg pf child_name age ((p # ps) ! i) ((w # ws) ! i)
                 = (Inr ((img # imgs) ! i), (w # ws) ! Suc i)"
  proof (intro allI impI)
    fix i assume i: "i < length (p # ps)"
    show "illustrate_page cfg pf child_name age ((p # ps) ! i) ((w # ws) ! i)
            = (Inr ((img # imgs) ! i), (w # ws) ! Suc i)"
    proof (cases i)
      case 0
      with step start show ?thesis by simp
    next
      case (Suc j)
      with i each show ?thesis by simp
    qed
  qed
  show ?case
    by (rule exI [of _ "img # imgs"], rule exI [of _ "w # ws"]) (use run len all in simp)
qed

text \<open>
  C1. Given a story whose pages are a list of page records, the loop returns exactly one
  result per page, in the order of the pages: the result at position \<open>i\<close> is the one
  the body of the loop gives for page \<open>i\<close> in the world the earlier pages left. That
  result is what \<^verbatim>\<open>generate_image\<close> returned, and absent when it returned nothing or
  raised, or when the seed could not be derived. The loop as a whole does not raise.
\<close>

theorem illustrate_one_result_per_page:
  assumes "dict_get story ''pages'' (JArr []) = Inr (JArr ps)"
    and "\<forall>p\<in>set ps. \<exists>kvs. p = JObj kvs"
  shows "\<exists>imgs ws. illustrate cfg pf child_name age story w = (Inr imgs, last ws)
           \<and> length imgs = length ps \<and> length ws = Suc (length ps) \<and> ws ! 0 = w
           \<and> (\<forall>i<length ps.
                 illustrate_page cfg pf child_name age (ps ! i) (ws ! i)
                   = (Inr (imgs ! i), ws ! Suc i)
               \<and> (\<forall>prompt seed.
                     page_prompt pf child_name age (ps ! i) = Inr prompt \<longrightarrow>
                     page_seed pf child_name (ps ! i) = Inr seed \<longrightarrow>
                     (case fst (generate_image cfg pf prompt None (Some seed) (ws ! i)) of
                        Inl e \<Rightarrow> imgs ! i = None
                      | Inr r \<Rightarrow> imgs ! i = r))
               \<and> (\<forall>e. page_seed pf child_name (ps ! i) = Inl e \<longrightarrow> imgs ! i = None))"
proof -
  from illustrate_pages_trace [OF assms(2), of cfg pf child_name age w]
  obtain imgs ws where run: "illustrate_pages cfg pf child_name age ps w = (Inr imgs, last ws)"
    and len: "length imgs = length ps" "length ws = Suc (length ps)" and start: "ws ! 0 = w"
    and each: "\<forall>i<length ps. illustrate_page cfg pf child_name age (ps ! i) (ws ! i)
                          = (Inr (imgs ! i), ws ! Suc i)"
    by blast
  have whole: "illustrate cfg pf child_name age story w = (Inr imgs, last ws)"
    using assms(1) run by (simp add: illustrate_def bind_io_def lift_io_def iterate_def)
  have absorbed: "\<forall>i<length ps. \<forall>prompt seed.
                     page_prompt pf child_name age (ps ! i) = Inr prompt \<longrightarrow>
                     page_seed pf child_name (ps ! i) = Inr seed \<longrightarrow>
                     (case fst (generate_image cfg pf prompt None (Some seed) (ws ! i)) of
                        Inl e \<Rightarrow> imgs ! i = None
                      | Inr r \<Rightarrow> imgs ! i = r)"
    using each illustrate_page_result by blast
  have unhashable: "\<forall>i<length ps. \<forall>e. page_seed pf child_name (ps ! i) = Inl e \<longrightarrow> imgs ! i = None"
    using each illustrate_page_unhashable by blast
  from whole len start each absorbed unhashable show ?thesis by blast
qed

theorem illustrate_one_result_per_page_witness:
  "dict_get (JObj [(''pages'', JArr [JObj [], JObj [(''page'', JInt 2)]])]) ''pages'' (JArr [])
     = Inr (JArr [JObj [], JObj [(''page'', JInt 2)]])
   \<and> (\<exists>imgs w'. illustrate keyed flaky ''Mina'' ''6''
                   (JObj [(''pages'', JArr [JObj [], JObj [(''page'', JInt 2)]])]) world0
                 = (Inr imgs, w') \<and> length imgs = 2)
   \<and> fst (illustrate keyed flaky ''Mina'' ''6''
            (JObj [(''pages'', JArr [JObj [], JObj [(''page'', JInt 2)]])]) world0)
       = Inr [None, Some ''output/img_0123456789ab.png'']"
proof -
  have a: "dict_get (JObj [(''pages'', JArr [JObj [], JObj [(''page'', JInt 2)]])]) ''pages'' (JArr [])
     = Inr (JArr [JObj [], JObj [(''page'', JInt 2)]])"
    by (simp add: dict_get_def)
  have b: "\<forall>p\<in>set [JObj [], JObj [(''page'', JInt 2)]]. \<exists>kvs. p = JObj kvs" by simp
  from illustrate_one_result_per_page [OF a b, of keyed flaky "''Mina''" "''6''" world0]
  have c: "\<exists>imgs w'. illustrate keyed flaky ''Mina'' ''6''
                   (JObj [(''pages'', JArr [JObj [], JObj [(''page'', JInt 2)]])]) world0
                 = (Inr imgs, w') \<and> length imgs = 2"
    by auto
  have d: "fst (illustrate keyed flaky ''Mina'' ''6''
            (JObj [(''pages'', JArr [JObj [], JObj [(''page'', JInt 2)]])]) world0)
       = Inr [None, Some ''output/img_0123456789ab.png'']"
    by code_simp
  from a c d show ?thesis by blast
qed



text \<open>
  C9, as the claim states it, fails: a story without pages is no failure of the loop.
  For the story below, which has no \<^verbatim>\<open>pages\<close> entry at all, the loop returns the empty
  list of results and raises nothing.
\<close>

theorem story_without_pages_is_accepted:
  "illustrate no_keys offline ''Mina'' ''6''
     (JObj [(''title'', JStr ''T''), (''synopsis'', JStr ''S'')]) world0 = (Inr [], world0)"
  by (simp add: illustrate_def bind_io_def lift_io_def iterate_def dict_get_def)

text \<open>
  C9, amended. A story dict whose \<^verbatim>\<open>pages\<close> entry is missing or is the empty list is
  not a failure of the illustration step: the loop returns the empty list of results,
  raises nothing and leaves the world as it was. The handler does not abort there: when
  the form was read and the text provider returned such a story, the handler goes on to
  the assembly with the empty list, and its outcome is the outcome of the assembly.
\<close>

theorem story_without_pages_gives_no_results:
  "dict_get story ''pages'' (JArr []) = Inr (JArr []) \<Longrightarrow>
   illustrate cfg pf child_name age story w' = (Inr [], w')
   \<and> (\<forall>data inp w w1.
         read_form pf data = Inr inp \<longrightarrow>
         generate_story_with_openai cfg pf (in_name inp) (in_age inp) (in_theme inp)
           (in_tone inp) (in_pages inp) w = (Inr story, w1) \<longrightarrow>
         create cfg pf data w = assemble pf story [] (in_name inp) w1)"
proof -
  assume none: "dict_get story ''pages'' (JArr []) = Inr (JArr [])"
  have loop: "\<And>name a v. illustrate cfg pf name a story v = (Inr [], v)"
    using none by (simp add: illustrate_def bind_io_def lift_io_def iterate_def)
  have job: "\<forall>data inp w w1.
         read_form pf data = Inr inp \<longrightarrow>
         generate_story_with_openai cfg pf (in_name inp) (in_age inp) (in_theme inp)
           (in_tone inp) (in_pages inp) w = (Inr story, w1) \<longrightarrow>
         create cfg pf data w = assemble pf story [] (in_name inp) w1"
    by (simp add: create_def bind_io_def lift_io_def catch_io_def return_io_def loop)
  from loop job show ?thesis by blast
qed

theorem story_without_pages_gives_no_results_witness:
  "dict_get (sample_story ''Child'' ''5'' ''jungle'' ''playful'' 0) ''pages'' (JArr [])
     = Inr (JArr [])
   \<and> illustrate no_keys offline ''Child'' ''5''
        (sample_story ''Child'' ''5'' ''jungle'' ''playful'' 0) world0 = (Inr [], world0)
   \<and> create no_keys offline [(''pages'', ''0'')] world0
       = assemble offline (sample_story ''Child'' ''5'' ''jungle'' ''playful'' 0) [] ''Child'' world0
   \<and> fst (create no_keys offline [(''pages'', ''0'')] world0)
       = Inr (SendFile ''%PDF Child and the Jungle Adventure'' ''Child_storybook.pdf''
                ''application/pdf'')"
proof -
  let ?story = "sample_story ''Child'' ''5'' ''jungle'' ''playful'' 0"
  let ?inp = "\<lparr>in_name = ''Child'', in_age = ''5'', in_theme = ''jungle'', in_tone = ''playful'',
               in_pages = 0\<rparr>"
  have a: "dict_get ?story ''pages'' (JArr []) = Inr (JArr [])"
    by code_simp
  have f: "read_form offline [(''pages'', ''0'')] = Inr ?inp"
    by code_simp
  have g: "generate_story_with_openai no_keys offline (in_name ?inp) (in_age ?inp) (in_theme ?inp)
             (in_tone ?inp) (in_pages ?inp) world0 = (Inr ?story, world0)"
    by (simp add: generate_story_with_openai_def no_keys_def return_io_def)
  from story_without_pages_gives_no_results [OF a, of no_keys offline "''Child''" "''5''" world0]
  have loop: "illustrate no_keys offline ''Child'' ''5'' ?story world0 = (Inr [], world0)"
    and job: "create no_keys offline [(''pages'', ''0'')] world0
               = assemble offline ?story [] ''Child'' world0"
    using f g by auto
  have out: "fst (create no_keys offline [(''pages'', ''0'')] world0)
       = Inr (SendFile ''%PDF Child and the Jungle Adventure'' ''Child_storybook.pdf''
                ''application/pdf'')"
    by code_simp
  from a loop job out show ?thesis by blast
qed

subsection \<open>A reply that is not a story\<close>

text \<open>
  C4, as the claim states it, fails: a reply that parses as JSON is returned as the story
  even when it deviates from the schema. The content \<^verbatim>\<open>{}\<close> decodes to the empty
  object, which is no story; \<^verbatim>\<open>generate_story_with_openai\<close> returns it, nothing is
  flashed, and the handler stores and sends a document.
\<close>

theorem schema_deviation_accepted:
  "reply_content (answering body_object) body_object = Inr (JStr ''{}'')
   \<and> json_loads (answering body_object) ''{}'' = Some (JObj [])
   \<and> \<not> matches_story_schema (JObj [])
   \<and> fst (generate_story_with_openai keyed (answering body_object)
            ''Mina'' ''5'' ''jungle'' ''playful'' 6 world0) = Inr (JObj [])
   \<and> fst (create keyed (answering body_object) [(''name'', ''Mina'')] world0)
       = Inr (SendFile ''%PDF '' ''Mina_storybook.pdf'' ''application/pdf'')
   \<and> flashes (snd (create keyed (answering body_object) [(''name'', ''Mina'')] world0)) = []
   \<and> map fst (files (snd (create keyed (answering body_object) [(''name'', ''Mina'')] world0)))
       = [''output/story_01234567.html'', ''output/Mina_storybook_01234567.pdf'']"
  by code_simp



text \<open>
  C4, amended. If the content of the reply is a string that does not parse as JSON,
  \<^verbatim>\<open>generate_story_with_openai\<close> raises a \<^verbatim>\<open>RuntimeError\<close> whose message ends with the
  raw text; the handler flashes a notice holding that message and redirects to the
  form. Nothing is written: the world differs only by the one remote call and the
  notice.
\<close>

theorem unparsable_story_aborts_job:
  assumes "OPENAI_API_KEY cfg \<noteq> []"
    and "read_form pf data = Inr inp"
    and "remote pf (length (calls w))
           (story_request cfg (in_name inp) (in_age inp) (in_theme inp) (in_tone inp) (in_pages inp))
         = Response st body"
    and "\<not> (400 \<le> st \<and> st < 600)"
    and "reply_content pf body = Inr (JStr text)"
    and "json_loads pf text = None"
  shows "generate_story_with_openai cfg pf (in_name inp) (in_age inp) (in_theme inp) (in_tone inp)
           (in_pages inp) w
         = (Inl (RuntimeError (''LLM returned unparsable JSON. Raw text:'' @ [CHR 0x0A] @ text)),
            w\<lparr>calls := calls w @ [story_request cfg (in_name inp) (in_age inp) (in_theme inp)
                                     (in_tone inp) (in_pages inp)]\<rparr>)
       \<and> create cfg pf data w
         = (Inr (Redirect ''index''),
            w\<lparr>calls := calls w @ [story_request cfg (in_name inp) (in_age inp) (in_theme inp)
                                     (in_tone inp) (in_pages inp)],
              flashes := flashes w @ [''Error generating story: ''
                                      @ ''LLM returned unparsable JSON. Raw text:'' @ [CHR 0x0A] @ text]\<rparr>)"
proof -
  let ?rq = "story_request cfg (in_name inp) (in_age inp) (in_theme inp) (in_tone inp) (in_pages inp)"
  have story: "generate_story_with_openai cfg pf (in_name inp) (in_age inp) (in_theme inp)
                 (in_tone inp) (in_pages inp) w
         = (Inl (RuntimeError (''LLM returned unparsable JSON. Raw text:'' @ [CHR 0x0A] @ text)),
            w\<lparr>calls := calls w @ [?rq]\<rparr>)"
    using assms(1,3,4,5,6)
    by (simp add: generate_story_with_openai_def bind_io_def post_def lift_io_def Let_def
        raise_for_status_def parse_story_def unparsable_def format_value_def)
  have "create cfg pf data w
         = (Inr (Redirect ''index''),
            w\<lparr>calls := calls w @ [?rq],
              flashes := flashes w @ [''Error generating story: ''
                                      @ ''LLM returned unparsable JSON. Raw text:'' @ [CHR 0x0A] @ text]\<rparr>)"
    unfolding create_def using assms(2) story
    by (simp add: bind_io_def lift_io_def catch_io_def flash_def return_io_def exn_str_def)
  with story show ?thesis by simp
qed

theorem unparsable_story_aborts_job_witness:
  "OPENAI_API_KEY keyed \<noteq> []
   \<and> reply_content (answering body_prose) body_prose = Inr (JStr ''Once upon a time'')
   \<and> json_loads (answering body_prose) ''Once upon a time'' = None
   \<and> fst (create keyed (answering body_prose) [(''name'', ''Mina'')] world0) = Inr (Redirect ''index'')
   \<and> flashes (snd (create keyed (answering body_prose) [(''name'', ''Mina'')] world0))
       = [''Error generating story: LLM returned unparsable JSON. Raw text:'' @ [CHR 0x0A]
          @ ''Once upon a time'']
   \<and> files (snd (create keyed (answering body_prose) [(''name'', ''Mina'')] world0)) = []"
proof -
  have k: "OPENAI_API_KEY keyed \<noteq> []" by (simp add: keyed_def)
  have f: "read_form (answering body_prose) [(''name'', ''Mina'')]
           = Inr \<lparr>in_name = ''Mina'', in_age = ''5'', in_theme = ''jungle'', in_tone = ''playful'',
                  in_pages = 6\<rparr>"
    by (simp add: read_form_def form_get_def form_pages_def)
  have r: "remote (answering body_prose) (length (calls world0))
             (story_request keyed (in_name \<lparr>in_name = ''Mina'', in_age = ''5'', in_theme = ''jungle'', in_tone = ''playful'', in_pages = 6\<rparr>)
               (in_age \<lparr>in_name = ''Mina'', in_age = ''5'', in_theme = ''jungle'', in_tone = ''playful'', in_pages = 6\<rparr>)
               (in_theme \<lparr>in_name = ''Mina'', in_age = ''5'', in_theme = ''jungle'', in_tone = ''playful'', in_pages = 6\<rparr>)
               (in_tone \<lparr>in_name = ''Mina'', in_age = ''5'', in_theme = ''jungle'', in_tone = ''playful'', in_pages = 6\<rparr>)
               (in_pages \<lparr>in_name = ''Mina'', in_age = ''5'', in_theme = ''jungle'', in_tone = ''playful'', in_pages = 6\<rparr>))
           = Response 200 body_prose"
    by (simp add: answering_def)
  have s: "\<not> (400 \<le> (200::nat) \<and> (200::nat) < 600)" by simp
  have c: "reply_content (answering body_prose) body_prose = Inr (JStr ''Once upon a time'')"
    by code_simp
  have l: "json_loads (answering body_prose) ''Once upon a time'' = None"
    by code_simp
  from unparsable_story_aborts_job [OF k f r s c l] have
    "create keyed (answering body_prose) [(''name'', ''Mina'')] world0
       = (Inr (Redirect ''index''),
          world0\<lparr>calls := calls world0 @ [story_request keyed ''Mina'' ''5'' ''jungle'' ''playful'' 6],
                 flashes := flashes world0 @ [''Error generating story: ''
                   @ ''LLM returned unparsable JSON. Raw text:'' @ [CHR 0x0A] @ ''Once upon a time'']\<rparr>)"
    by simp
  then have "fst (create keyed (answering body_prose) [(''name'', ''Mina'')] world0) = Inr (Redirect ''index'')"
    and "flashes (snd (create keyed (answering body_prose) [(''name'', ''Mina'')] world0))
       = [''Error generating story: LLM returned unparsable JSON. Raw text:'' @ [CHR 0x0A]
          @ ''Once upon a time'']"
    and "files (snd (create keyed (answering body_prose) [(''name'', ''Mina'')] world0)) = []"
    by (simp_all add: world0_def)
  with k c l show ?thesis by blast
qed


subsection \<open>The document\<close>

lemma image_at_all: "map (image_at images) [0..<length images] = images"
  by (rule nth_equalityI) (simp_all add: image_at_def)

lemma map_snd_of_enumerate: "map (\<lambda>x. f (snd x)) (enumerate n xs) = map f xs"
proof -
  have "map (\<lambda>x. f (snd x)) (enumerate n xs) = map f (map snd (enumerate n xs))"
    by (simp only: map_map comp_def)
  also have "\<dots> = map f xs" by (simp only: map_snd_enumerate)
  finally show ?thesis .
qed

lemma map_fst_of_enumerate: "map (\<lambda>x. g (fst x)) (enumerate n xs) = map g [n..<n + length xs]"
proof -
  have "map (\<lambda>x. g (fst x)) (enumerate n xs) = map g (map fst (enumerate n xs))"
    by (simp only: map_map comp_def)
  also have "\<dots> = map g [n..<n + length xs]" by (simp only: map_fst_enumerate)
  finally show ?thesis .
qed

text \<open>
  C6. For every story and sequence of illustration results, the document has exactly one
  section per page of the story, and the texts of the sections are the page texts in the
  order of the pages. When there are as many results as pages, the images of the
  sections are the results, in their order.
\<close>

theorem document_sections_follow_pages:
  "length (doc_sections (story_document pf story images)) = length (story_pages story)
   \<and> map fst (doc_sections (story_document pf story images))
       = map (\<lambda>p. field_text pf p ''page_text'') (story_pages story)
   \<and> (length images = length (story_pages story) \<longrightarrow>
        map snd (doc_sections (story_document pf story images)) = images)"
proof -
  let ?ps = "story_pages story"
  have 1: "length (doc_sections (story_document pf story images)) = length ?ps"
    by (simp add: story_document_def)
  have 2: "map fst (doc_sections (story_document pf story images))
       = map (\<lambda>p. field_text pf p ''page_text'') ?ps"
    using map_snd_of_enumerate [of "\<lambda>p. field_text pf p ''page_text''" 0 ?ps]
    by (simp add: story_document_def case_prod_beta comp_def)
  have snds: "map snd (doc_sections (story_document pf story images))
               = map (image_at images) [0..<length ?ps]"
    using map_fst_of_enumerate [of "image_at images" 0 ?ps]
    by (simp add: story_document_def case_prod_beta comp_def)
  have 3: "length images = length ?ps \<longrightarrow>
        map snd (doc_sections (story_document pf story images)) = images"
  proof
    assume "length images = length ?ps"
    with snds have "map snd (doc_sections (story_document pf story images))
               = map (image_at images) [0..<length images]"
      by simp
    then show "map snd (doc_sections (story_document pf story images)) = images"
      by (simp add: image_at_all)
  qed
  from 1 2 3 show ?thesis by blast
qed

theorem document_sections_follow_pages_witness:
  "length [None, Some ''output/img_0123456789ab.png'']
     = length (story_pages (sample_story ''Mina'' ''6'' ''ocean'' ''playful'' 2))
   \<and> doc_sections (story_document offline (sample_story ''Mina'' ''6'' ''ocean'' ''playful'' 2)
                     [None, Some ''output/img_0123456789ab.png''])
       = [(''Page 1: Mina does something fun in the ocean.'', None),
          (''Page 2: Mina does something fun in the ocean.'', Some ''output/img_0123456789ab.png'')]"
proof -
  have a: "length [None, Some ''output/img_0123456789ab.png'']
     = length (story_pages (sample_story ''Mina'' ''6'' ''ocean'' ''playful'' 2))"
    by code_simp
  have b: "doc_sections (story_document offline (sample_story ''Mina'' ''6'' ''ocean'' ''playful'' 2)
                     [None, Some ''output/img_0123456789ab.png''])
       = [(''Page 1: Mina does something fun in the ocean.'', None),
          (''Page 2: Mina does something fun in the ocean.'', Some ''output/img_0123456789ab.png'')]"
    using document_sections_follow_pages [of offline "sample_story ''Mina'' ''6'' ''ocean'' ''playful'' 2"
                 "[None, Some ''output/img_0123456789ab.png'']"] a
    by code_simp
  from a b show ?thesis by blast
qed




subsection \<open>The seed\<close>

text \<open>
  C3. The seed of a page is the builtin hash of the running process, reduced modulo
  \<open>2 ^ 32\<close>, so it follows the process: for the name Mina and page 1, a process whose
  builtin hash gives the pair \<open>- 8480903969764527898\<close> derives the seed
  \<open>4093391078\<close>, and one whose builtin hash gives it \<open>2865285233014341163\<close> derives
  \<open>234749483\<close>. These are the values CPython 3.11 computes for \<^verbatim>\<open>hash(("Mina", 1))\<close>
  under \<^verbatim>\<open>PYTHONHASHSEED=1\<close> and \<^verbatim>\<open>PYTHONHASHSEED=2\<close>.
\<close>

theorem seed_differs_between_processes:
  "page_seed (offline\<lparr>builtin_hash := (\<lambda>kv. - 8480903969764527898)\<rparr>) ''Mina''
     (JObj [(''page'', JInt 1)]) = Inr 4093391078
   \<and> page_seed (offline\<lparr>builtin_hash := (\<lambda>kv. 2865285233014341163)\<rparr>) ''Mina''
     (JObj [(''page'', JInt 1)]) = Inr 234749483"
  by (simp add: page_seed_def dict_get_def hash_pair_def)

subsection \<open>Reading the form\<close>

text \<open>
  C8, as the claim states it, fails: the page count is not made positive, and not every
  submitted value yields a request. The numerals \<^verbatim>\<open>0\<close> and \<^verbatim>\<open>-3\<close> are taken as
  they are, and \<^verbatim>\<open>six\<close> raises \<^verbatim>\<open>ValueError\<close>.
\<close>

theorem pages_field_not_made_positive:
  "read_form offline [(''name'', ''Mina''), (''pages'', ''0'')]
     = Inr \<lparr>in_name = ''Mina'', in_age = ''5'', in_theme = ''jungle'', in_tone = ''playful'',
            in_pages = 0\<rparr>
   \<and> read_form offline [(''name'', ''Mina''), (''pages'', ''-3'')]
     = Inr \<lparr>in_name = ''Mina'', in_age = ''5'', in_theme = ''jungle'', in_tone = ''playful'',
            in_pages = - 3\<rparr>
   \<and> read_form offline [(''name'', ''Mina''), (''pages'', ''six'')] = Inl ValueError"
  by code_simp

text \<open>
  C8, amended. Every missing field of the form is replaced by its default: the name by
  Child, the age by 5, the theme by jungle, the tone by playful, the page count by 6.
  A submitted page count is converted with \<^verbatim>\<open>int\<close>: a string of decimal digits that
  does not start with 0 and has no more digits than the interpreter's limit gives a page
  count of at least 1; a string of more digits than that limit, and any other string
  \<^verbatim>\<open>int\<close> rejects, makes the reading raise \<^verbatim>\<open>ValueError\<close>.
\<close>

theorem read_form_defaults_and_pages:
  "(\<forall>inp. read_form pf data = Inr inp \<longrightarrow>
      in_name inp = (case map_of data ''name'' of None \<Rightarrow> ''Child'' | Some v \<Rightarrow> v)
    \<and> in_age inp = (case map_of data ''age'' of None \<Rightarrow> ''5'' | Some v \<Rightarrow> v)
    \<and> in_theme inp = (case map_of data ''theme'' of None \<Rightarrow> ''jungle'' | Some v \<Rightarrow> v)
    \<and> in_tone inp = (case map_of data ''tone'' of None \<Rightarrow> ''playful'' | Some v \<Rightarrow> v))
   \<and> (map_of data ''pages'' = None \<longrightarrow> (\<exists>inp. read_form pf data = Inr inp \<and> in_pages inp = 6))
   \<and> (\<forall>s. map_of data ''pages'' = Some s \<longrightarrow> s \<noteq> [] \<longrightarrow> (\<forall>c\<in>set s. is_digit c) \<longrightarrow>
          hd s \<noteq> CHR ''0'' \<longrightarrow> \<not> over_limit pf (length s) \<longrightarrow>
          (\<exists>inp. read_form pf data = Inr inp \<and> 1 \<le> in_pages inp))
   \<and> (\<forall>s. map_of data ''pages'' = Some s \<longrightarrow> (\<forall>c\<in>set s. is_digit c) \<longrightarrow>
          over_limit pf (length s) \<longrightarrow> read_form pf data = Inl ValueError)
   \<and> (\<forall>s. map_of data ''pages'' = Some s \<longrightarrow> int_of_str pf s = Inl ValueError \<longrightarrow>
          read_form pf data = Inl ValueError)"
proof -
  have a: "\<forall>inp. read_form pf data = Inr inp \<longrightarrow>
      in_name inp = (case map_of data ''name'' of None \<Rightarrow> ''Child'' | Some v \<Rightarrow> v)
    \<and> in_age inp = (case map_of data ''age'' of None \<Rightarrow> ''5'' | Some v \<Rightarrow> v)
    \<and> in_theme inp = (case map_of data ''theme'' of None \<Rightarrow> ''jungle'' | Some v \<Rightarrow> v)
    \<and> in_tone inp = (case map_of data ''tone'' of None \<Rightarrow> ''playful'' | Some v \<Rightarrow> v)"
    by (auto simp: read_form_def form_get_def split: sum.splits)
  have b: "map_of data ''pages'' = None \<longrightarrow> (\<exists>inp. read_form pf data = Inr inp \<and> in_pages inp = 6)"
    by (simp add: read_form_def form_pages_def)
  have c: "\<forall>s. map_of data ''pages'' = Some s \<longrightarrow> s \<noteq> [] \<longrightarrow> (\<forall>c\<in>set s. is_digit c) \<longrightarrow>
          hd s \<noteq> CHR ''0'' \<longrightarrow> \<not> over_limit pf (length s) \<longrightarrow>
          (\<exists>inp. read_form pf data = Inr inp \<and> 1 \<le> in_pages inp)"
  proof (intro allI impI)
    fix s
    assume p: "map_of data ''pages'' = Some s" and "s \<noteq> []" "\<forall>c\<in>set s. is_digit c"
      "hd s \<noteq> CHR ''0''" "\<not> over_limit pf (length s)"
    then obtain n where "int_of_str pf s = Inr n" "1 \<le> n"
      using int_of_str_numeral [of s pf] by blast
    with p show "\<exists>inp. read_form pf data = Inr inp \<and> 1 \<le> in_pages inp"
      by (simp add: read_form_def form_pages_def)
  qed
  have d: "\<forall>s. map_of data ''pages'' = Some s \<longrightarrow> (\<forall>c\<in>set s. is_digit c) \<longrightarrow>
          over_limit pf (length s) \<longrightarrow> read_form pf data = Inl ValueError"
  proof (intro allI impI)
    fix s
    assume p: "map_of data ''pages'' = Some s" and ds: "\<forall>c\<in>set s. is_digit c"
      and over: "over_limit pf (length s)"
    from over have "s \<noteq> []" by (auto simp: over_limit_def)
    from int_of_str_digits [OF this ds, of pf] over have "int_of_str pf s = Inl ValueError"
      by simp
    with p show "read_form pf data = Inl ValueError"
      by (simp add: read_form_def form_pages_def)
  qed
  have e: "\<forall>s. map_of data ''pages'' = Some s \<longrightarrow> int_of_str pf s = Inl ValueError \<longrightarrow>
          read_form pf data = Inl ValueError"
    by (simp add: read_form_def form_pages_def)
  from a b c d e show ?thesis by blast
qed

theorem read_form_defaults_and_pages_witness:
  "map_of [(''name'', ''Mina''), (''pages'', ''12'')] ''pages'' = Some ''12''
   \<and> ''12'' \<noteq> [] \<and> list_all is_digit ''12'' \<and> hd ''12'' \<noteq> CHR ''0''
   \<and> \<not> over_limit offline (length ''12'')
   \<and> (\<exists>inp. read_form offline [(''name'', ''Mina''), (''pages'', ''12'')] = Inr inp
            \<and> 1 \<le> in_pages inp \<and> in_name inp = ''Mina'' \<and> in_age inp = ''5''
            \<and> in_theme inp = ''jungle'' \<and> in_tone inp = ''playful'')
   \<and> map_of [(''theme'', ''ocean'')] ''pages'' = None
   \<and> (\<exists>inp. read_form offline [(''theme'', ''ocean'')] = Inr inp \<and> in_pages inp = 6)
   \<and> map_of [(''pages'', ''six'')] ''pages'' = Some ''six''
   \<and> int_of_str offline ''six'' = Inl ValueError
   \<and> read_form offline [(''pages'', ''six'')] = Inl ValueError
   \<and> list_all is_digit (replicate 4301 (CHR ''1''))
   \<and> over_limit offline (length (replicate 4301 (CHR ''1'')))
   \<and> read_form offline [(''pages'', replicate 4301 (CHR ''1''))] = Inl ValueError"
proof -
  have h1: "map_of [(''name'', ''Mina''), (''pages'', ''12'')] ''pages'' = Some ''12''" by simp
  have h2: "''12'' \<noteq> []" by simp
  have h3: "\<forall>c\<in>set ''12''. is_digit c" by (simp add: is_digit_def)
  have h4: "hd ''12'' \<noteq> CHR ''0''" by simp
  have h4': "\<not> over_limit offline (length ''12'')" by (simp add: over_limit_def)
  from read_form_defaults_and_pages [of offline "[(''name'', ''Mina''), (''pages'', ''12'')]"]
    h1 h2 h3 h4 h4'
  have r1: "\<exists>inp. read_form offline [(''name'', ''Mina''), (''pages'', ''12'')] = Inr inp
            \<and> 1 \<le> in_pages inp \<and> in_name inp = ''Mina'' \<and> in_age inp = ''5''
            \<and> in_theme inp = ''jungle'' \<and> in_tone inp = ''playful''"
    by auto
  have h5: "map_of [(''theme'', ''ocean'')] ''pages'' = None" by simp
  from read_form_defaults_and_pages [of offline "[(''theme'', ''ocean'')]"] h5
  have r2: "\<exists>inp. read_form offline [(''theme'', ''ocean'')] = Inr inp \<and> in_pages inp = 6" by blast
  have h6: "map_of [(''pages'', ''six'')] ''pages'' = Some ''six''" by simp
  have h7: "int_of_str offline ''six'' = Inl ValueError" by code_simp
  from read_form_defaults_and_pages [of offline "[(''pages'', ''six'')]"] h6 h7
  have r3: "read_form offline [(''pages'', ''six'')] = Inl ValueError" by blast
  have h8: "\<forall>c\<in>set (replicate 4301 (CHR ''1'')). is_digit c" by (simp add: is_digit_def)
  have h9: "over_limit offline (length (replicate 4301 (CHR ''1'')))"
    by (simp add: over_limit_def offline_def)
  have h10: "map_of [(''pages'', replicate 4301 (CHR ''1''))] ''pages''
               = Some (replicate 4301 (CHR ''1''))"
    by simp
  from read_form_defaults_and_pages [of offline "[(''pages'', replicate 4301 (CHR ''1''))]"]
    h8 h9 h10
  have r4: "read_form offline [(''pages'', replicate 4301 (CHR ''1''))] = Inl ValueError"
    by blast
  from h3 have h3': "list_all is_digit ''12''" by (simp add: list_all_iff)
  from h8 have h8': "list_all is_digit (replicate 4301 (CHR ''1''))" by (simp add: list_all_iff)
  from h1 h2 h3' h4 h4' r1 h5 r2 h6 h7 r3 h8' h9 r4 show ?thesis by blast
qed

end
